theory Spec2Isabelle
  imports Complex_Main "HOL-Library.Multiset" "HOL-Library.Sublist" "HOL-Library.Product_Lexorder"
begin

section \<open>Python floats\<close>

text \<open>
  A Python \<open>float\<close> is an IEEE double: a finite value, one of the two infinities, or
  NaN. A finite double is modelled by the real number it denotes. The comparisons \<open>>\<close>
  and \<open><\<close> are those of IEEE 754: every comparison with NaN is false.
\<close>

datatype pyfloat = Finite real | PosInf | NegInf | NaN

fun float_lt :: "pyfloat \<Rightarrow> pyfloat \<Rightarrow> bool" where
  "float_lt NaN _ = False"
| "float_lt _ NaN = False"
| "float_lt (Finite a) (Finite b) = (a < b)"
| "float_lt (Finite a) PosInf = True"
| "float_lt (Finite a) NegInf = False"
| "float_lt PosInf _ = False"
| "float_lt NegInf (Finite b) = True"
| "float_lt NegInf PosInf = True"
| "float_lt NegInf NegInf = False"

definition float_gt :: "pyfloat \<Rightarrow> pyfloat \<Rightarrow> bool" where
  "float_gt a b = float_lt b a"

fun float_neg :: "pyfloat \<Rightarrow> pyfloat" where
  "float_neg (Finite a) = Finite (- a)"
| "float_neg PosInf = NegInf"
| "float_neg NegInf = PosInf"
| "float_neg NaN = NaN"

text \<open>
  The literal \<open>0.05\<close> of the source is the double nearest to one twentieth, which is
  \<open>3602879701896397 / 2^56\<close>; \<open>-0.05\<close> is its exact negation.
\<close>

definition lit_0_05 :: pyfloat where
  "lit_0_05 = Finite (3602879701896397 / 72057594037927936)"

section \<open>app.py: bucketing\<close>

text \<open>
  \<^verbatim>\<open>
  def polarity_bucket(p: float) -> str:
      if p > 0.05:
          return "Positive"
      if p < -0.05:
          return "Negative"
      return "Neutral"
  \<close>
\<close>

definition polarity_bucket :: "pyfloat \<Rightarrow> string" where
  "polarity_bucket p =
     (if float_gt p lit_0_05 then ''Positive''
      else if float_lt p (float_neg lit_0_05) then ''Negative''
      else ''Neutral'')"


section \<open>Python strings (ASCII)\<close>

text \<open>
  A \<open>str\<close> is modelled as a \<open>string\<close> whose characters are ASCII. The classes are
  the ones Python uses for ASCII characters: \<open>str.split()\<close> and the regular expression
  class \<open>\s\<close> share the whitespace characters (code points 9 to 13, 28 to 32), the class
  \<open>\w\<close> is the letters, the digits and the underscore, and \<open>str.lower()\<close> maps
  \<open>A\<close>..\<open>Z\<close> to \<open>a\<close>..\<open>z\<close>. Characters beyond ASCII are outside the model.
\<close>

definition is_space :: "char \<Rightarrow> bool" where
  "is_space c = (let n = (of_char c :: nat) in (9 \<le> n \<and> n \<le> 13) \<or> (28 \<le> n \<and> n \<le> 32))"

definition is_alnum :: "char \<Rightarrow> bool" where
  "is_alnum c =
     (let n = (of_char c :: nat)
      in (48 \<le> n \<and> n \<le> 57) \<or> (65 \<le> n \<and> n \<le> 90) \<or> (97 \<le> n \<and> n \<le> 122))"

definition is_word :: "char \<Rightarrow> bool" where
  "is_word c = (is_alnum c \<or> c = CHR ''_'')"

definition ascii_uppercase :: string where
  "ascii_uppercase = ''ABCDEFGHIJKLMNOPQRSTUVWXYZ''"

definition ascii_lowercase :: string where
  "ascii_lowercase = ''abcdefghijklmnopqrstuvwxyz''"

definition lower_char :: "char \<Rightarrow> char" where
  "lower_char c =
     (case map_of (zip ascii_uppercase ascii_lowercase) c of Some l \<Rightarrow> l | None \<Rightarrow> c)"

definition py_lower :: "string \<Rightarrow> string" where
  "py_lower s = map lower_char s"

text \<open>\<open>x.split()\<close>: the maximal runs of non-whitespace characters, in order.\<close>

fun split_from :: "string \<Rightarrow> string \<Rightarrow> string list" where
  "split_from cur [] = (if cur = [] then [] else [cur])"
| "split_from cur (c # cs) =
     (if is_space c then (if cur = [] then split_from [] cs else cur # split_from [] cs)
      else split_from (cur @ [c]) cs)"

definition py_split :: "string \<Rightarrow> string list" where
  "py_split s = split_from [] s"

text \<open>\<open>' '.join(words)\<close>\<close>

fun join_space :: "string list \<Rightarrow> string" where
  "join_space [] = []"
| "join_space [w] = w"
| "join_space (w # v # ws) = w @ CHR '' '' # join_space (v # ws)"

text \<open>\<open>sub in s\<close> for strings: \<open>sub\<close> occurs in \<open>s\<close> as a contiguous run.\<close>

fun contains :: "string \<Rightarrow> string \<Rightarrow> bool" where
  "contains sub [] = (sub = [])"
| "contains sub (c # cs) = (prefix sub (c # cs) \<or> contains sub cs)"

text \<open>\<open>str(n)\<close> for a non-negative and for any integer.\<close>

fun str_nat :: "nat \<Rightarrow> string" where
  "str_nat n =
     (if n < 10 then [char_of (48 + n)] else str_nat (n div 10) @ [char_of (48 + n mod 10)])"

definition str_int :: "int \<Rightarrow> string" where
  "str_int i = (if i < 0 then CHR ''-'' # str_nat (nat (- i)) else str_nat (nat i))"

section \<open>utils/Preprocessor.py\<close>

text \<open>
  \<^verbatim>\<open>
  stop_words = set(stopwords.words('english'))
  lemmatizer = WordNetLemmatizer()

  def preprocess_reviews(reviews: pd.Series) -> pd.Series:
      reviews = reviews.str.lower()
      reviews = reviews.str.replace(r'[^\w\s]', '', regex=True)
      reviews = reviews.apply(lambda x: ' '.join(
          word for word in x.split() if word not in stop_words))
      reviews = reviews.apply(lambda x: ' '.join(
          lemmatizer.lemmatize(word) for word in x.split()))
      return reviews
  \<close>
  The stopword set and the lemmatizer are NLTK data that the repository does not contain:
  they are the parameters \<open>stop_words\<close> and \<open>lemmatize\<close>. A \<open>pd.Series\<close> of strings
  with its default index is the list of its values; the series of an empty list is the
  empty series of strings (its \<open>dtype\<close> is \<open>object\<close>, as in pandas 2).
\<close>

definition remove_punctuation :: "string \<Rightarrow> string" where
  "remove_punctuation x = filter (\<lambda>c. is_word c \<or> is_space c) x"

definition remove_stopwords :: "string set \<Rightarrow> string \<Rightarrow> string" where
  "remove_stopwords stop_words x = join_space (filter (\<lambda>word. word \<notin> stop_words) (py_split x))"

definition lemmatize_words :: "(string \<Rightarrow> string) \<Rightarrow> string \<Rightarrow> string" where
  "lemmatize_words lemmatize x = join_space (map lemmatize (py_split x))"

definition preprocess_reviews ::
  "string set \<Rightarrow> (string \<Rightarrow> string) \<Rightarrow> string list \<Rightarrow> string list" where
  "preprocess_reviews stop_words lemmatize reviews =
     (let reviews1 = map py_lower reviews;
          reviews2 = map remove_punctuation reviews1;
          reviews3 = map (remove_stopwords stop_words) reviews2;
          reviews4 = map (lemmatize_words lemmatize) reviews3
      in reviews4)"

text \<open>
  \<open>normalize\<close> is what \<open>preprocess_reviews\<close> does to one review: the entry of the
  one-row series.
\<close>

definition normalize :: "string set \<Rightarrow> (string \<Rightarrow> string) \<Rightarrow> string \<Rightarrow> string" where
  "normalize stop_words lemmatize t = hd (preprocess_reviews stop_words lemmatize [t])"

text \<open>The tokens that survive stopword removal, and the well-formed tokens.\<close>

definition kept_tokens :: "string set \<Rightarrow> string \<Rightarrow> string list" where
  "kept_tokens stop_words t =
     filter (\<lambda>word. word \<notin> stop_words) (py_split (remove_punctuation (py_lower t)))"

definition clean_token :: "string \<Rightarrow> bool" where
  "clean_token w = (w \<noteq> [] \<and> list_all (\<lambda>c. is_word c \<and> lower_char c = c) w)"

section \<open>utils/SentimentAnalysis.py\<close>

text \<open>
  \<^verbatim>\<open>
  def analyze_sentiment(reviews: pd.Series, reviews_raw: pd.Series) -> pd.DataFrame:
      polarity = reviews.apply(lambda x: TextBlob(x).sentiment.polarity)
      subjectivity = reviews.apply(lambda x: TextBlob(x).sentiment.subjectivity)
      return pd.DataFrame({'raw_reviews': reviews_raw, 'reviews': reviews,
                           'polarity': polarity, 'subjectivity': subjectivity})
  \<close>
  TextBlob's scorer is the parameter \<open>sentiment\<close>, from a text to its polarity and
  subjectivity. A data frame is the list of its rows in index order. \<open>pd.DataFrame\<close>
  aligns the columns on their index: the frame has a row for every index of any column,
  and a column that has no entry at an index leaves the cell missing (\<open>None\<close> for a
  text, \<open>NaN\<close> for a number).
\<close>

record row =
  raw_reviews :: "string option"
  reviews :: "string option"
  polarity :: pyfloat
  subjectivity :: pyfloat

definition text_cell :: "string list \<Rightarrow> nat \<Rightarrow> string option" where
  "text_cell column i = (if i < length column then Some (column ! i) else None)"

definition float_cell :: "pyfloat list \<Rightarrow> nat \<Rightarrow> pyfloat" where
  "float_cell column i = (if i < length column then column ! i else NaN)"

definition data_frame ::
  "string list \<Rightarrow> string list \<Rightarrow> pyfloat list \<Rightarrow> pyfloat list \<Rightarrow> row list" where
  "data_frame raw_col reviews_col polarity_col subjectivity_col =
     map (\<lambda>i. \<lparr>raw_reviews = text_cell raw_col i, reviews = text_cell reviews_col i,
               polarity = float_cell polarity_col i,
               subjectivity = float_cell subjectivity_col i\<rparr>)
       [0 ..< max (max (length raw_col) (length reviews_col))
                (max (length polarity_col) (length subjectivity_col))]"

definition analyze_sentiment ::
  "(string \<Rightarrow> pyfloat \<times> pyfloat) \<Rightarrow> string list \<Rightarrow> string list \<Rightarrow> row list" where
  "analyze_sentiment sentiment reviews_col reviews_raw =
     (let polarity_col = map (\<lambda>x. fst (sentiment x)) reviews_col;
          subjectivity_col = map (\<lambda>x. snd (sentiment x)) reviews_col
      in data_frame reviews_raw reviews_col polarity_col subjectivity_col)"

section \<open>The sentiment scorer\<close>

text \<open>
  Modelled from the spec: the sentiment scorer, which the repository calls
  (\<open>TextBlob(x).sentiment\<close>) and does not contain. The spec (4.4) gives its contract:
  \<open>score(normalized_text) -> (polarity, subjectivity)\<close> is a pure function of the text,
  computed by a fixed lexicon-based heuristic, with the polarity in \<open>[-1.0, 1.0]\<close> and the
  subjectivity in \<open>[0.0, 1.0]\<close>, and "Empty-string input yields (0.0, 0.0)". The
  heuristic is the parameter; the contract is written around it.
\<close>

definition score :: "(string \<Rightarrow> real \<times> real) \<Rightarrow> string \<Rightarrow> pyfloat \<times> pyfloat" where
  "score heuristic normalized_text =
     (if normalized_text = [] then (Finite 0, Finite 0)
      else (Finite (max (- 1) (min 1 (fst (heuristic normalized_text)))),
            Finite (max 0 (min 1 (snd (heuristic normalized_text))))))"

section \<open>app.py: the pipeline and the representative reviews\<close>

text \<open>
  \<^verbatim>\<open>
  def sentiment_pipeline(raw_reviews: List[str]) -> pd.DataFrame:
      processed = preprocess_reviews(pd.Series(raw_reviews))
      return analyze_sentiment(processed, pd.Series(raw_reviews))
  \<close>
\<close>

definition sentiment_pipeline ::
  "string set \<Rightarrow> (string \<Rightarrow> string) \<Rightarrow> (string \<Rightarrow> pyfloat \<times> pyfloat) \<Rightarrow> string list \<Rightarrow> row list"
  where
  "sentiment_pipeline stop_words lemmatize sentiment raw_list =
     (let processed = preprocess_reviews stop_words lemmatize raw_list
      in analyze_sentiment sentiment processed raw_list)"

text \<open>
  In \<open>main\<close> the bucket of every review is stored in the column \<open>sentiment\<close>
  (\<^verbatim>\<open>df['sentiment'] = df['polarity'].apply(polarity_bucket)\<close>) and the overall bucket
  is the bucket of the mean (\<^verbatim>\<open>avg_polarity = df['polarity'].mean()\<close>,
  \<^verbatim>\<open>overall_sentiment = polarity_bucket(avg_polarity)\<close>). The mean of a pandas column
  is computed in floating point by pandas; it is a parameter here.
\<close>

definition sentiment_column :: "row list \<Rightarrow> string list" where
  "sentiment_column df = map (\<lambda>r. polarity_bucket (polarity r)) df"

definition overall_sentiment :: "(pyfloat list \<Rightarrow> pyfloat) \<Rightarrow> row list \<Rightarrow> string" where
  "overall_sentiment mean df =
     (let avg_polarity = mean (map polarity df) in polarity_bucket avg_polarity)"

text \<open>
  \<^verbatim>\<open>top_positive = df.nlargest(3, 'polarity')\<close> and
  \<^verbatim>\<open>top_negative = df.nsmallest(3, 'polarity')\<close>. pandas documents \<open>nlargest(n, column)\<close>
  as the first \<open>n\<close> rows of the frame ordered by the column in descending order, and
  \<open>nsmallest\<close> likewise in ascending order; with the default \<open>keep='first'\<close> rows of
  equal value stay in their original order, and rows whose value is NaN come last in both.
  The order is written as a rank: the rows are sorted by rank, ascending and stably.
\<close>

fun descending_rank :: "pyfloat \<Rightarrow> nat \<times> real" where
  "descending_rank PosInf = (0, 0)"
| "descending_rank (Finite a) = (1, - a)"
| "descending_rank NegInf = (2, 0)"
| "descending_rank NaN = (3, 0)"

fun ascending_rank :: "pyfloat \<Rightarrow> nat \<times> real" where
  "ascending_rank NegInf = (0, 0)"
| "ascending_rank (Finite a) = (1, a)"
| "ascending_rank PosInf = (2, 0)"
| "ascending_rank NaN = (3, 0)"

definition nlargest :: "nat \<Rightarrow> ('r \<Rightarrow> pyfloat) \<Rightarrow> 'r list \<Rightarrow> 'r list" where
  "nlargest n column df = take n (sort_key (\<lambda>r. descending_rank (column r)) df)"

definition nsmallest :: "nat \<Rightarrow> ('r \<Rightarrow> pyfloat) \<Rightarrow> 'r list \<Rightarrow> 'r list" where
  "nsmallest n column df = take n (sort_key (\<lambda>r. ascending_rank (column r)) df)"

definition top_positive :: "row list \<Rightarrow> row list" where
  "top_positive df = nlargest 3 polarity df"

definition top_negative :: "row list \<Rightarrow> row list" where
  "top_negative df = nsmallest 3 polarity df"

section \<open>utils/FindMovie.py\<close>

text \<open>
  A library call can raise; the exception is a value. A search result of Cinemagoer is a
  \<open>Movie\<close> with a title, a \<open>movieID\<close> and, when known, a year. The lookup
  \<open>ia.search_movie\<close> is a network call: it is the parameter \<open>search_movie\<close>, which
  answers a query with the result list or raises. What a function prints is returned
  with its result, line by line.
\<close>

datatype py_exception = PyException string

record movie =
  title :: string
  year :: "int option"
  movieID :: string

type_synonym imdb_access = "string \<Rightarrow> py_exception + movie list"

definition movie_label :: "movie \<Rightarrow> string" where
  "movie_label m =
     title m @ '' ('' @ (case year m of Some y \<Rightarrow> str_int y | None \<Rightarrow> ''N/A'') @ '')''"

text \<open>
  \<^verbatim>\<open>
  def search_movies(ia, movie_name):
      results = ia.search_movie(movie_name)
      for i, movie in enumerate(results[:10]):
          print(f"{i+1}. {movie['title']} ({movie.get('year', 'N/A')})")
      return results
  \<close>
\<close>

fun print_numbered :: "nat \<Rightarrow> movie list \<Rightarrow> string list" where
  "print_numbered i [] = []"
| "print_numbered i (m # ms) =
     (str_nat (i + 1) @ ''. '' @ movie_label m) # print_numbered (i + 1) ms"

definition search_movies ::
  "imdb_access \<Rightarrow> string \<Rightarrow> string list \<times> (py_exception + movie list)" where
  "search_movies search_movie movie_name =
     (case search_movie movie_name of
        Inl e \<Rightarrow> ([], Inl e)
      | Inr results \<Rightarrow> (print_numbered 0 (take 10 results), Inr results))"

text \<open>
  \<^verbatim>\<open>
  def find_and_get_reviews_link(ia, movie_name):
      results = ia.search_movie(movie_name)
      if results:
          movie = results[0]
          movie_id = movie.movieID
          reviews_link = f"https://www.imdb.com/title/tt{movie_id}/reviews"
          print(f"Movie found: {movie['title']} ({movie.get('year', 'N/A')})")
          print(f"Reviews link: {reviews_link}")
          return reviews_link
      return None
  \<close>
\<close>

definition find_and_get_reviews_link ::
  "imdb_access \<Rightarrow> string \<Rightarrow> string list \<times> (py_exception + string option)" where
  "find_and_get_reviews_link search_movie movie_name =
     (case search_movie movie_name of
        Inl e \<Rightarrow> ([], Inl e)
      | Inr [] \<Rightarrow> ([], Inr None)
      | Inr (first_movie # _) \<Rightarrow>
          (let movie_id = movieID first_movie;
               reviews_link = ''https://www.imdb.com/title/tt'' @ movie_id @ ''/reviews''
           in ([''Movie found: '' @ movie_label first_movie, ''Reviews link: '' @ reviews_link],
               Inr (Some reviews_link))))"

text \<open>
  In \<open>main\<close> the candidates offered to the user are
  \<^verbatim>\<open>candidates = get_movie_candidates(movie_query)[:10]\<close>, where
  \<open>get_movie_candidates(query)\<close> is \<open>search_movies(ia, query)\<close>.
\<close>

definition candidates :: "imdb_access \<Rightarrow> string \<Rightarrow> py_exception + movie list" where
  "candidates search_movie movie_query =
     (case snd (search_movies search_movie movie_query) of
        Inl e \<Rightarrow> Inl e
      | Inr results \<Rightarrow> Inr (take 10 results))"

section \<open>utils/Scrapper.py\<close>

text \<open>
  The browser is outside the program. One run of \<open>extract_imdb_reviews\<close> asks it a
  fixed series of questions, each at most once; a \<open>browser\<close> holds the answers of one
  run: whether \<open>driver.get\<close> raises, what \<open>find_elements\<close> returns, for every button
  its text and whether scrolling to it and clicking it raise, and the page that
  \<open>driver.page_source\<close> returns. The page is kept as BeautifulSoup reads it: the
  \<open>div\<close> tags in document order, each with the values of its \<open>class\<close> attribute and the
  text that \<open>get_text(strip=True)\<close> gives. \<open>driver.quit()\<close> always completes. The calls
  the function makes are recorded as a list of events, returned with the result.
\<close>

record button =
  text_outcome :: "py_exception + string"
  scroll_outcome :: "py_exception option"
  click_outcome :: "py_exception option"

record div_tag =
  class_attr :: "string list"
  get_text :: string

record browser =
  get_outcome :: "py_exception option"
  find_elements_outcome :: "py_exception + button list"
  page_source_outcome :: "py_exception + div_tag list"

datatype event =
    Launch
  | Get "string option"
  | FindElements
  | ButtonText nat
  | ScrollIntoView nat
  | Click nat
  | Sleep real
  | PageSource
  | FindAll string
  | Quit

text \<open>
  \<open>soup.find_all('div', {'class': value})\<close>: the \<open>div\<close> tags, in document order, one of
  whose classes is \<open>value\<close> or whose whole class attribute reads \<open>value\<close>.
\<close>

definition find_all :: "div_tag list \<Rightarrow> string \<Rightarrow> div_tag list" where
  "find_all soup value =
     filter (\<lambda>d. value \<in> set (class_attr d) \<or> join_space (class_attr d) = value) soup"

definition primary_class :: string where
  "primary_class = ''ipc-html-content-inner-div''"

definition fallback_class :: string where
  "fallback_class = ''text show-more__control''"

text \<open>
  The loop over the buttons, inside \<open>try: ... except Exception: pass\<close>: it ends at the
  first button whose text contains \<open>All\<close>, and any exception ends it with
  \<open>all_button_clicked\<close> still false.
\<close>

fun click_all_button :: "nat \<Rightarrow> button list \<Rightarrow> event list \<times> bool" where
  "click_all_button i [] = ([], False)"
| "click_all_button i (b # bs) =
     (case text_outcome b of
        Inl e \<Rightarrow> ([ButtonText i], False)
      | Inr label \<Rightarrow>
          if contains ''All'' label then
            (case scroll_outcome b of
               Some e \<Rightarrow> ([ButtonText i, ScrollIntoView i], False)
             | None \<Rightarrow>
                 (case click_outcome b of
                    Some e \<Rightarrow> ([ButtonText i, ScrollIntoView i, Sleep 0.5, Click i], False)
                  | None \<Rightarrow> ([ButtonText i, ScrollIntoView i, Sleep 0.5, Click i], True)))
          else (let (events, clicked) = click_all_button (i + 1) bs
                in (ButtonText i # events, clicked)))"

definition try_click_all :: "browser \<Rightarrow> event list \<times> bool" where
  "try_click_all b =
     (case find_elements_outcome b of
        Inl e \<Rightarrow> ([FindElements], False)
      | Inr all_buttons \<Rightarrow>
          (let (events, clicked) = click_all_button 0 all_buttons
           in (FindElements # events, clicked)))"

text \<open>The body of the \<open>try\<close> block, from \<open>driver.get(url)\<close> to \<open>return reviews\<close>.\<close>

definition try_body ::
  "browser \<Rightarrow> string option \<Rightarrow> real \<Rightarrow> event list \<times> (py_exception + string list)" where
  "try_body b url waiting_timeout =
     (case get_outcome b of
        Some e \<Rightarrow> ([Get url], Inl e)
      | None \<Rightarrow>
          (let (events, all_button_clicked) = try_click_all b;
               wait = (if all_button_clicked then waiting_timeout else 3);
               before = Get url # events @ [Sleep wait, PageSource]
           in case page_source_outcome b of
                Inl e \<Rightarrow> (before, Inl e)
              | Inr soup \<Rightarrow>
                  (let reviews0 = map get_text (find_all soup primary_class)
                   in if reviews0 = [] then
                        (before @ [FindAll primary_class, FindAll fallback_class],
                         Inr (reviews0 @ map get_text (find_all soup fallback_class)))
                      else (before @ [FindAll primary_class], Inr reviews0))))"

text \<open>
  \<open>extract_imdb_reviews\<close>: \<open>webdriver.Chrome(options=options)\<close> starts the browser
  (\<open>launch\<close> is its outcome: it raises, or there is a browser); then the \<open>try\<close> block
  runs and \<open>finally: driver.quit()\<close> follows it, whether it returned or raised.
\<close>

definition extract_imdb_reviews ::
  "py_exception + browser \<Rightarrow> string option \<Rightarrow> real \<Rightarrow> event list \<times> (py_exception + string list)"
  where
  "extract_imdb_reviews launch url waiting_timeout =
     (case launch of
        Inl e \<Rightarrow> ([Launch], Inl e)
      | Inr b \<Rightarrow>
          (let (events, outcome) = try_body b url waiting_timeout
           in (Launch # events @ [Quit], outcome)))"

text \<open>The events of the search for the button: everything between \<open>driver.get\<close> and the wait.\<close>

fun button_event :: "event \<Rightarrow> bool" where
  "button_event FindElements = True"
| "button_event (ButtonText _) = True"
| "button_event (ScrollIntoView _) = True"
| "button_event (Click _) = True"
| "button_event (Sleep _) = True"
| "button_event _ = False"

section \<open>Example data\<close>

text \<open>
  A few entries of NLTK's English stopword list, and the WordNet lemmatizer as it acts
  on the words of the examples below: the plural nouns \<open>cans\<close>, \<open>movies\<close> and
  \<open>reviews\<close> go to their singular, and \<open>tin\<close>, \<open>great\<close> and \<open>good_movie\<close> (which
  WordNet does not know) are returned as they are.
\<close>

definition example_stop_words :: "string set" where
  "example_stop_words = {''the'', ''a'', ''it'', ''was'', ''were'', ''can'', ''this''}"

definition example_lemmatize :: "string \<Rightarrow> string" where
  "example_lemmatize w =
     (if w = ''cans'' then ''can''
      else if w = ''movies'' then ''movie''
      else if w = ''reviews'' then ''review''
      else w)"

text \<open>Five scored reviews: two share the polarity 0.5, one has no polarity.\<close>

definition row_a :: row where
  "row_a = \<lparr>raw_reviews = Some ''Good.'', reviews = Some ''good'',
            polarity = Finite 0.5, subjectivity = Finite 0.6\<rparr>"

definition row_b :: row where
  "row_b = \<lparr>raw_reviews = Some ''Bad.'', reviews = Some ''bad'',
            polarity = Finite (- 0.5), subjectivity = Finite 0.6\<rparr>"

definition row_c :: row where
  "row_c = \<lparr>raw_reviews = Some ''Fine!'', reviews = Some ''fine'',
            polarity = Finite 0.5, subjectivity = Finite 0.5\<rparr>"

definition row_d :: row where
  "row_d = \<lparr>raw_reviews = Some ''Cast'', reviews = None,
            polarity = NaN, subjectivity = NaN\<rparr>"

definition row_e :: row where
  "row_e = \<lparr>raw_reviews = Some ''Superb'', reviews = Some ''superb'',
            polarity = Finite 1, subjectivity = Finite 1\<rparr>"

definition example_frame :: "row list" where
  "example_frame = [row_a, row_b, row_c, row_d, row_e]"

text \<open>A lookup that answers every query with the same eleven results, and one that finds nothing.\<close>

definition the_matrix :: movie where
  "the_matrix = \<lparr>title = ''The Matrix'', year = Some 1999, movieID = ''0133093''\<rparr>"

definition eleven_results :: imdb_access where
  "eleven_results q = Inr (replicate 11 the_matrix)"

definition no_results :: imdb_access where
  "no_results q = Inr []"

text \<open>
  A run on a page that has no review under either selector, and a run in which
  \<open>driver.get\<close> raises.
\<close>

definition empty_page_browser :: browser where
  "empty_page_browser =
     \<lparr>get_outcome = None, find_elements_outcome = Inr [],
      page_source_outcome = Inr [\<lparr>class_attr = [''ipc-page-section''], get_text = ''User reviews''\<rparr>]\<rparr>"

definition failing_browser :: browser where
  "failing_browser =
     \<lparr>get_outcome = Some (PyException ''WebDriverException''), find_elements_outcome = Inr [],
      page_source_outcome = Inr []\<rparr>"

section \<open>Properties\<close>

subsection \<open>Bucketing\<close>

lemma float_lt_asym: "float_lt a b \<Longrightarrow> \<not> float_lt b a"
  by (cases a; cases b) simp_all

lemma not_above_and_below:
  "\<not> (float_gt p lit_0_05 \<and> float_lt p (float_neg lit_0_05))"
  by (cases p) (simp_all add: float_gt_def lit_0_05_def)

lemma polarity_bucket_Positive: "polarity_bucket p = ''Positive'' \<longleftrightarrow> float_gt p lit_0_05"
  by (simp add: polarity_bucket_def)

lemma polarity_bucket_Negative:
  "polarity_bucket p = ''Negative'' \<longleftrightarrow> float_lt p (float_neg lit_0_05)"
  using not_above_and_below [of p] by (auto simp add: polarity_bucket_def)

lemma polarity_bucket_Neutral:
  "polarity_bucket p = ''Neutral'' \<longleftrightarrow>
     \<not> float_gt p lit_0_05 \<and> \<not> float_lt p (float_neg lit_0_05)"
  by (simp add: polarity_bucket_def)

text \<open>
  C1. Every polarity gets exactly one of the three buckets: \<open>Positive\<close> exactly when it
  is above 0.05, \<open>Negative\<close> exactly when it is below -0.05, \<open>Neutral\<close> exactly when it
  is neither; no polarity is both above 0.05 and below -0.05. The column \<open>sentiment\<close>
  holds this bucket for every review, and the overall bucket is given by the same rule
  at the mean polarity.
\<close>

theorem polarity_bucket_partition:
  "polarity_bucket p \<in> {''Positive'', ''Neutral'', ''Negative''}
   \<and> (polarity_bucket p = ''Positive'' \<longleftrightarrow> float_gt p lit_0_05)
   \<and> (polarity_bucket p = ''Negative'' \<longleftrightarrow> float_lt p (float_neg lit_0_05))
   \<and> (polarity_bucket p = ''Neutral'' \<longleftrightarrow>
        \<not> float_gt p lit_0_05 \<and> \<not> float_lt p (float_neg lit_0_05))
   \<and> \<not> (float_gt p lit_0_05 \<and> float_lt p (float_neg lit_0_05))
   \<and> sentiment_column df = map (\<lambda>r. polarity_bucket (polarity r)) df
   \<and> (overall_sentiment mean df = ''Positive'' \<longleftrightarrow> float_gt (mean (map polarity df)) lit_0_05)
   \<and> (overall_sentiment mean df = ''Negative'' \<longleftrightarrow>
        float_lt (mean (map polarity df)) (float_neg lit_0_05))
   \<and> (overall_sentiment mean df = ''Neutral'' \<longleftrightarrow>
        \<not> float_gt (mean (map polarity df)) lit_0_05
        \<and> \<not> float_lt (mean (map polarity df)) (float_neg lit_0_05))"
proof -
  have "polarity_bucket p \<in> {''Positive'', ''Neutral'', ''Negative''}"
    by (simp add: polarity_bucket_def)
  moreover have "sentiment_column df = map (\<lambda>r. polarity_bucket (polarity r)) df"
    by (simp add: sentiment_column_def)
  moreover have "overall_sentiment mean df = polarity_bucket (mean (map polarity df))"
    by (simp add: overall_sentiment_def)
  ultimately show ?thesis
    using not_above_and_below [of p]
    by (simp only: polarity_bucket_Positive polarity_bucket_Negative polarity_bucket_Neutral
        simp_thms)
qed

subsection \<open>Representative reviews\<close>

lemma descending_rank_inj: "descending_rank a = descending_rank b \<longleftrightarrow> a = b"
  by (cases a; cases b) simp_all

lemma ascending_rank_inj: "ascending_rank a = ascending_rank b \<longleftrightarrow> a = b"
  by (cases a; cases b) simp_all

lemma descending_rank_le: "descending_rank a \<le> descending_rank b \<Longrightarrow> \<not> float_lt a b"
  by (cases a; cases b) simp_all

lemma ascending_rank_le: "ascending_rank a \<le> ascending_rank b \<Longrightarrow> \<not> float_gt a b"
  by (cases a; cases b) (simp_all add: float_gt_def)

lemma take_sort_length: "length (take n (sort_key k df)) = min n (length df)"
  by simp

lemma take_sort_mset: "mset (take n (sort_key k df)) \<subseteq># mset df"
proof -
  have "mset (take n (sort_key k df)) \<subseteq># mset (sort_key k df)"
    by (metis append_take_drop_id mset_subset_eq_add_left union_code)
  then show ?thesis by simp
qed

lemma take_sort_sorted: "sorted (map k (take n (sort_key k df)))"
  by (simp add: take_map [symmetric] sorted_wrt_take)

lemma take_sort_rest:
  assumes "s \<in> set (take n (sort_key k df))"
    and "r \<in># mset df - mset (take n (sort_key k df))"
  shows "k s \<le> k r"
proof -
  let ?ys = "sort_key k df"
  have "mset df = mset (take n ?ys) + mset (drop n ?ys)"
    by (metis append_take_drop_id mset_sort union_code)
  then have "mset df - mset (take n ?ys) = mset (drop n ?ys)" by simp
  with assms(2) have r: "r \<in> set (drop n ?ys)" by simp
  have "sorted (map k (take n ?ys @ drop n ?ys))" by simp
  then have "\<forall>x\<in>set (take n ?ys). \<forall>y\<in>set (drop n ?ys). k x \<le> k y"
    unfolding map_append sorted_append by auto
  with assms(1) r show ?thesis by blast
qed

lemma take_sort_stable:
  "prefix (filter (\<lambda>r. k r = v) (take n (sort_key k df))) (filter (\<lambda>r. k r = v) df)"
proof -
  have "prefix (filter (\<lambda>r. k r = v) (take n (sort_key k df))) (filter (\<lambda>r. k r = v) (sort_key k df))"
    by (rule filter_mono_prefix) (rule take_is_prefix)
  then show ?thesis by (simp add: sort_key_stable)
qed

text \<open>
  C2. \<open>top_positive\<close> and \<open>top_negative\<close> have \<open>min 3 n\<close> rows, all rows of the
  frame. \<open>top_positive\<close> is in descending order of polarity and no row left out has a
  polarity greater than a selected one; \<open>top_negative\<close> is in ascending order and no row
  left out has a smaller polarity. Ties go by the original order: among the rows of any
  one polarity the selected ones are the first ones of the frame, in the frame's order.
  On a frame of one row both are that row.
\<close>

theorem top_reviews_selection:
  "length (top_positive df) = min 3 (length df)
   \<and> length (top_negative df) = min 3 (length df)
   \<and> mset (top_positive df) \<subseteq># mset df
   \<and> mset (top_negative df) \<subseteq># mset df
   \<and> sorted_wrt (\<lambda>a b. \<not> float_lt (polarity a) (polarity b)) (top_positive df)
   \<and> sorted_wrt (\<lambda>a b. \<not> float_gt (polarity a) (polarity b)) (top_negative df)
   \<and> (\<forall>s \<in> set (top_positive df). \<forall>r \<in># mset df - mset (top_positive df).
         \<not> float_gt (polarity r) (polarity s))
   \<and> (\<forall>s \<in> set (top_negative df). \<forall>r \<in># mset df - mset (top_negative df).
         \<not> float_lt (polarity r) (polarity s))
   \<and> (\<forall>p. prefix (filter (\<lambda>r. polarity r = p) (top_positive df))
                  (filter (\<lambda>r. polarity r = p) df))
   \<and> (\<forall>p. prefix (filter (\<lambda>r. polarity r = p) (top_negative df))
                  (filter (\<lambda>r. polarity r = p) df))
   \<and> top_positive [x] = [x] \<and> top_negative [x] = [x]"
proof -
  let ?d = "\<lambda>r. descending_rank (polarity r)" and ?a = "\<lambda>r. ascending_rank (polarity r)"
  have len: "length (top_positive df) = min 3 (length df)" "length (top_negative df) = min 3 (length df)"
    by (simp_all add: top_positive_def top_negative_def nlargest_def nsmallest_def)
  have sub: "mset (top_positive df) \<subseteq># mset df" "mset (top_negative df) \<subseteq># mset df"
    by (simp_all add: top_positive_def top_negative_def nlargest_def nsmallest_def take_sort_mset)
  have "sorted_wrt (\<lambda>a b. ?d a \<le> ?d b) (top_positive df)"
    using take_sort_sorted [of ?d 3 df]
    by (simp add: top_positive_def nlargest_def sorted_wrt_map)
  then have sp: "sorted_wrt (\<lambda>a b. \<not> float_lt (polarity a) (polarity b)) (top_positive df)"
    by (rule sorted_wrt_mono_rel [rotated]) (simp add: descending_rank_le)
  have "sorted_wrt (\<lambda>a b. ?a a \<le> ?a b) (top_negative df)"
    using take_sort_sorted [of ?a 3 df]
    by (simp add: top_negative_def nsmallest_def sorted_wrt_map)
  then have sn: "sorted_wrt (\<lambda>a b. \<not> float_gt (polarity a) (polarity b)) (top_negative df)"
    by (rule sorted_wrt_mono_rel [rotated]) (simp add: ascending_rank_le)
  have rp: "\<forall>s \<in> set (top_positive df). \<forall>r \<in># mset df - mset (top_positive df).
         \<not> float_gt (polarity r) (polarity s)"
    using take_sort_rest [of _ 3 ?d df] descending_rank_le
    unfolding top_positive_def nlargest_def float_gt_def by blast
  have rn: "\<forall>s \<in> set (top_negative df). \<forall>r \<in># mset df - mset (top_negative df).
         \<not> float_lt (polarity r) (polarity s)"
    using take_sort_rest [of _ 3 ?a df] ascending_rank_le
    unfolding top_negative_def nsmallest_def float_gt_def by blast
  have stp: "\<forall>p. prefix (filter (\<lambda>r. polarity r = p) (top_positive df)) (filter (\<lambda>r. polarity r = p) df)"
  proof
    fix p
    show "prefix (filter (\<lambda>r. polarity r = p) (top_positive df)) (filter (\<lambda>r. polarity r = p) df)"
      using take_sort_stable [of ?d "descending_rank p" 3 df]
      by (simp add: top_positive_def nlargest_def descending_rank_inj)
  qed
  have stn: "\<forall>p. prefix (filter (\<lambda>r. polarity r = p) (top_negative df)) (filter (\<lambda>r. polarity r = p) df)"
  proof
    fix p
    show "prefix (filter (\<lambda>r. polarity r = p) (top_negative df)) (filter (\<lambda>r. polarity r = p) df)"
      using take_sort_stable [of ?a "ascending_rank p" 3 df]
      by (simp add: top_negative_def nsmallest_def ascending_rank_inj)
  qed
  have one: "top_positive [x] = [x]" "top_negative [x] = [x]"
    by (simp_all add: top_positive_def top_negative_def nlargest_def nsmallest_def)
  from len sub sp sn rp rn stp stn one show ?thesis by blast
qed


text \<open>
  The witness for C2: in the example frame \<open>row_a\<close> and \<open>row_c\<close> tie at 0.5 and stay in
  this order in both selections; \<open>row_b\<close>, left out of \<open>top_positive\<close>, is not above
  the selected \<open>row_c\<close>.
\<close>

theorem top_reviews_selection_witness:
  "row_c \<in> set (top_positive example_frame)
   \<and> row_b \<in># mset example_frame - mset (top_positive example_frame)
   \<and> \<not> float_gt (polarity row_b) (polarity row_c)
   \<and> row_b \<in> set (top_negative example_frame)
   \<and> row_e \<in># mset example_frame - mset (top_negative example_frame)
   \<and> \<not> float_lt (polarity row_e) (polarity row_b)
   \<and> top_positive example_frame = [row_e, row_a, row_c]
   \<and> top_negative example_frame = [row_b, row_a, row_c]"
proof -
  have tp: "top_positive example_frame = [row_e, row_a, row_c]"
    by (simp add: top_positive_def nlargest_def example_frame_def row_a_def row_b_def row_c_def
        row_d_def row_e_def)
  have tn: "top_negative example_frame = [row_b, row_a, row_c]"
    by (simp add: top_negative_def nsmallest_def example_frame_def row_a_def row_b_def row_c_def
        row_d_def row_e_def)
  have c: "row_c \<in> set (top_positive example_frame)"
    by (simp add: tp)
  have b: "row_b \<in># mset example_frame - mset (top_positive example_frame)"
    by (simp add: tp) (simp add: example_frame_def row_a_def row_b_def row_c_def row_d_def row_e_def)
  have b': "row_b \<in> set (top_negative example_frame)"
    by (simp add: tn)
  have e: "row_e \<in># mset example_frame - mset (top_negative example_frame)"
    by (simp add: tn) (simp add: example_frame_def row_a_def row_b_def row_c_def row_d_def row_e_def)
  from top_reviews_selection [of example_frame row_a] c b b' e tp tn show ?thesis
    by blast
qed

subsection \<open>The scored table\<close>

lemma normalize_unfold:
  "normalize stop_words lemmatize t =
     lemmatize_words lemmatize (remove_stopwords stop_words (remove_punctuation (py_lower t)))"
  by (simp add: normalize_def preprocess_reviews_def)

lemma preprocess_reviews_map:
  "preprocess_reviews stop_words lemmatize rs = map (normalize stop_words lemmatize) rs"
  by (simp add: normalize_unfold preprocess_reviews_def)

lemma data_frame_aligned:
  assumes "length b = length a" and "length c = length a" and "length d = length a"
  shows "data_frame a b c d =
           map (\<lambda>i. \<lparr>raw_reviews = Some (a ! i), reviews = Some (b ! i),
                     polarity = c ! i, subjectivity = d ! i\<rparr>) [0 ..< length a]"
  using assms by (simp add: data_frame_def text_cell_def float_cell_def)

lemma map_index_nth: "map (\<lambda>i. f (xs ! i)) [0 ..< length xs] = map f xs"
  by (rule nth_equalityI) simp_all

lemma sentiment_pipeline_map:
  "sentiment_pipeline stop_words lemmatize sentiment raw =
     map (\<lambda>t. \<lparr>raw_reviews = Some t,
               reviews = Some (normalize stop_words lemmatize t),
               polarity = fst (sentiment (normalize stop_words lemmatize t)),
               subjectivity = snd (sentiment (normalize stop_words lemmatize t))\<rparr>) raw"
proof -
  let ?n = "normalize stop_words lemmatize"
  let ?row = "\<lambda>t. \<lparr>raw_reviews = Some t, reviews = Some (?n t),
               polarity = fst (sentiment (?n t)), subjectivity = snd (sentiment (?n t))\<rparr>"
  have "sentiment_pipeline stop_words lemmatize sentiment raw =
          data_frame raw (map ?n raw) (map (\<lambda>x. fst (sentiment x)) (map ?n raw))
            (map (\<lambda>x. snd (sentiment x)) (map ?n raw))"
    unfolding sentiment_pipeline_def analyze_sentiment_def preprocess_reviews_map Let_def ..
  also have "\<dots> = map (\<lambda>i. ?row (raw ! i)) [0 ..< length raw]"
    by (subst data_frame_aligned) simp_all
  also have "\<dots> = map ?row raw"
    by (rule map_index_nth)
  finally show ?thesis .
qed

text \<open>
  C10. The table of \<open>sentiment_pipeline\<close> has one row for every raw review, in the
  order of the input; the row of a review holds the review itself, its normalization,
  and the polarity and subjectivity of that normalized text.
\<close>

theorem sentiment_pipeline_rows:
  "sentiment_pipeline stop_words lemmatize sentiment raw =
     map (\<lambda>t. \<lparr>raw_reviews = Some t,
               reviews = Some (normalize stop_words lemmatize t),
               polarity = fst (sentiment (normalize stop_words lemmatize t)),
               subjectivity = snd (sentiment (normalize stop_words lemmatize t))\<rparr>) raw
   \<and> length (sentiment_pipeline stop_words lemmatize sentiment raw) = length raw"
  by (simp add: sentiment_pipeline_map)

subsection \<open>The movie lookup\<close>

lemma length_print_numbered: "length (print_numbered i ms) = length ms"
  by (induction ms arbitrary: i) simp_all

text \<open>
  C7. \<open>find_and_get_reviews_link\<close> asks the lookup for the title it is given and
  nothing else decides its result: when the lookup finds nothing it returns \<open>None\<close>,
  and otherwise the link \<open>https://www.imdb.com/title/tt<movieID>/reviews\<close> of the first
  result; an exception of the lookup is passed on.
\<close>

theorem find_and_get_reviews_link_first:
  "(search_movie name = Inr [] \<longrightarrow>
      snd (find_and_get_reviews_link search_movie name) = Inr None)
   \<and> (search_movie name = Inr (m # ms) \<longrightarrow>
      snd (find_and_get_reviews_link search_movie name) =
        Inr (Some (''https://www.imdb.com/title/tt'' @ movieID m @ ''/reviews'')))
   \<and> (search_movie name = Inl e \<longrightarrow>
      snd (find_and_get_reviews_link search_movie name) = Inl e)
   \<and> (search_movie name = other_search name \<longrightarrow>
      find_and_get_reviews_link search_movie name = find_and_get_reviews_link other_search name)"
  by (simp add: find_and_get_reviews_link_def Let_def)

text \<open>
  The witness for C7: a lookup whose first result is The Matrix gives the link of that
  movie, and a lookup that finds nothing gives \<open>None\<close>.
\<close>

theorem find_and_get_reviews_link_first_witness:
  "eleven_results ''The Matrix'' = Inr (the_matrix # replicate 10 the_matrix)
   \<and> snd (find_and_get_reviews_link eleven_results ''The Matrix'') =
        Inr (Some ''https://www.imdb.com/title/tt0133093/reviews'')
   \<and> no_results ''Zzyzx'' = Inr []
   \<and> snd (find_and_get_reviews_link no_results ''Zzyzx'') = Inr None"
proof -
  have a: "eleven_results ''The Matrix'' = Inr (the_matrix # replicate 10 the_matrix)"
    by (simp add: eleven_results_def eval_nat_numeral)
  have b: "no_results ''Zzyzx'' = Inr []"
    by (simp add: no_results_def)
  have c: "movieID the_matrix = ''0133093''"
    by (simp add: the_matrix_def)
  note first = find_and_get_reviews_link_first [of eleven_results "''The Matrix''" the_matrix
      "replicate 10 the_matrix"]
  note none = find_and_get_reviews_link_first [of no_results "''Zzyzx''"]
  have "snd (find_and_get_reviews_link eleven_results ''The Matrix'') =
        Inr (Some (''https://www.imdb.com/title/tt'' @ movieID the_matrix @ ''/reviews''))"
    using first [THEN conjunct2, THEN conjunct1] a by (rule mp)
  then have d: "snd (find_and_get_reviews_link eleven_results ''The Matrix'') =
        Inr (Some ''https://www.imdb.com/title/tt0133093/reviews'')"
    by (simp only: c append.simps)
  have e: "snd (find_and_get_reviews_link no_results ''Zzyzx'') = Inr None"
    using none [THEN conjunct1] b by (rule mp)
  from a d b e show ?thesis by (intro conjI)
qed

text \<open>
  C6, as stated, fails: \<open>search_movies\<close> returns every result of the lookup. On a
  lookup with eleven results it returns all eleven, which is not their first ten.
\<close>

theorem search_movies_not_capped:
  "snd (search_movies eleven_results ''matrix'') = Inr (replicate 11 the_matrix)
   \<and> length (replicate 11 the_matrix) = 11
   \<and> snd (search_movies eleven_results ''matrix'') \<noteq> Inr (take 10 (replicate 11 the_matrix))"
  by (simp add: search_movies_def eleven_results_def)

text \<open>
  C6, amended. When the lookup answers, \<open>search_movies\<close> returns the whole answer in
  the lookup's order and prints its first ten entries; the cap is the caller's: the
  candidates of \<open>main\<close> are the first ten results, at most ten and never more than the
  lookup found. An exception of the lookup is passed on by both.
\<close>

theorem search_movies_cap_in_caller:
  "(search_movie q = Inr results \<longrightarrow>
      snd (search_movies search_movie q) = Inr results
      \<and> fst (search_movies search_movie q) = print_numbered 0 (take 10 results)
      \<and> length (fst (search_movies search_movie q)) = min 10 (length results)
      \<and> candidates search_movie q = Inr (take 10 results)
      \<and> length (take 10 results) = min 10 (length results))
   \<and> (search_movie q = Inl e \<longrightarrow>
      snd (search_movies search_movie q) = Inl e \<and> candidates search_movie q = Inl e)"
  by (simp add: search_movies_def candidates_def length_print_numbered min.commute)

text \<open>
  The witness for the amended C6: of eleven results \<open>search_movies\<close> returns eleven and
  prints ten lines, and the candidates are ten.
\<close>

theorem search_movies_cap_in_caller_witness:
  "eleven_results ''matrix'' = Inr (replicate 11 the_matrix)
   \<and> snd (search_movies eleven_results ''matrix'') = Inr (replicate 11 the_matrix)
   \<and> candidates eleven_results ''matrix'' = Inr (replicate 10 the_matrix)
   \<and> length (fst (search_movies eleven_results ''matrix'')) = 10"
proof -
  have a: "eleven_results ''matrix'' = Inr (replicate 11 the_matrix)"
    by (simp add: eleven_results_def)
  have "snd (search_movies eleven_results ''matrix'') = Inr (replicate 11 the_matrix)
      \<and> fst (search_movies eleven_results ''matrix'') =
          print_numbered 0 (take 10 (replicate 11 the_matrix))
      \<and> length (fst (search_movies eleven_results ''matrix'')) =
          min 10 (length (replicate 11 the_matrix))
      \<and> candidates eleven_results ''matrix'' = Inr (take 10 (replicate 11 the_matrix))
      \<and> length (take 10 (replicate 11 the_matrix)) = min 10 (length (replicate 11 the_matrix))"
    using search_movies_cap_in_caller [of eleven_results "''matrix''" "replicate 11 the_matrix",
        THEN conjunct1] a by (rule mp)
  with a show ?thesis by (simp add: length_print_numbered)
qed

subsection \<open>The review extractor\<close>

lemma click_all_button_events: "list_all button_event (fst (click_all_button i bs))"
  by (induction bs arbitrary: i)
     (simp_all add: case_prod_beta split: sum.splits option.splits)

lemma try_click_all_events: "list_all button_event (fst (try_click_all b))"
  by (simp add: try_click_all_def case_prod_beta click_all_button_events split: sum.splits)

lemma count_button_events:
  "list_all button_event events \<Longrightarrow> \<not> button_event x \<Longrightarrow> count_list events x = 0"
  by (induction events) auto

lemma classes_differ: "primary_class \<noteq> fallback_class"
  by (simp add: primary_class_def fallback_class_def)

text \<open>The five ways a run can go, each with its events and its outcome.\<close>

lemma extract_no_browser:
  "extract_imdb_reviews (Inl e) url wt = ([Launch], Inl e)"
  by (simp add: extract_imdb_reviews_def)

lemma extract_get_raises:
  "get_outcome b = Some e \<Longrightarrow>
     extract_imdb_reviews (Inr b) url wt = ([Launch, Get url, Quit], Inl e)"
  by (simp add: extract_imdb_reviews_def try_body_def)

lemma extract_page_source_raises:
  "get_outcome b = None \<Longrightarrow> page_source_outcome b = Inl e \<Longrightarrow>
     extract_imdb_reviews (Inr b) url wt =
       (Launch # Get url # fst (try_click_all b) @
          [Sleep (if snd (try_click_all b) then wt else 3), PageSource, Quit], Inl e)"
  by (simp add: extract_imdb_reviews_def try_body_def case_prod_beta)

lemma extract_primary:
  "get_outcome b = None \<Longrightarrow> page_source_outcome b = Inr soup \<Longrightarrow>
   find_all soup primary_class \<noteq> [] \<Longrightarrow>
     extract_imdb_reviews (Inr b) url wt =
       (Launch # Get url # fst (try_click_all b) @
          [Sleep (if snd (try_click_all b) then wt else 3), PageSource,
           FindAll primary_class, Quit],
        Inr (map get_text (find_all soup primary_class)))"
  by (simp add: extract_imdb_reviews_def try_body_def case_prod_beta)

lemma extract_fallback:
  "get_outcome b = None \<Longrightarrow> page_source_outcome b = Inr soup \<Longrightarrow>
   find_all soup primary_class = [] \<Longrightarrow>
     extract_imdb_reviews (Inr b) url wt =
       (Launch # Get url # fst (try_click_all b) @
          [Sleep (if snd (try_click_all b) then wt else 3), PageSource,
           FindAll primary_class, FindAll fallback_class, Quit],
        Inr (map get_text (find_all soup fallback_class)))"
  by (simp add: extract_imdb_reviews_def try_body_def case_prod_beta)

lemma extract_cases:
  obtains e where "launch = Inl e"
  | b e where "launch = Inr b" "get_outcome b = Some e"
  | b e where "launch = Inr b" "get_outcome b = None" "page_source_outcome b = Inl e"
  | b soup where "launch = Inr b" "get_outcome b = None" "page_source_outcome b = Inr soup"
      "find_all soup primary_class \<noteq> []"
  | b soup where "launch = Inr b" "get_outcome b = None" "page_source_outcome b = Inr soup"
      "find_all soup primary_class = []"
proof (cases launch)
  case (Inl e)
  then show ?thesis using that(1) by blast
next
  case (Inr b)
  show ?thesis
  proof (cases "get_outcome b")
    case (Some e)
    with Inr show ?thesis using that(2) by blast
  next
    case None
    show ?thesis
    proof (cases "page_source_outcome b")
      case (Inl e)
      with Inr None show ?thesis using that(3) by blast
    next
      case soup: (Inr soup)
      with Inr None show ?thesis using that(4,5) by blast
    qed
  qed
qed


lemma not_button_event_notin:
  "list_all button_event events \<Longrightarrow> \<not> button_event x \<Longrightarrow> x \<notin> set events"
  by (auto simp add: list_all_iff)

lemma count_try_click_all: "\<not> button_event x \<Longrightarrow> count_list (fst (try_click_all b)) x = 0"
  by (rule count_button_events [OF try_click_all_events])

lemma notin_try_click_all: "\<not> button_event x \<Longrightarrow> x \<notin> set (fst (try_click_all b))"
  by (rule not_button_event_notin [OF try_click_all_events])


text \<open>
  C8. The fallback selector is consulted exactly in the runs in which the page was read
  and the primary selector found nothing; it is consulted at most once, and so are the
  primary selector, the page and the navigation: nothing is retried. When both selectors
  find nothing the function returns the empty list.
\<close>

theorem fallback_only_after_empty_primary:
  "(FindAll fallback_class \<in> set (fst (extract_imdb_reviews launch url wt)) \<longleftrightarrow>
      (\<exists>b soup. launch = Inr b \<and> get_outcome b = None \<and> page_source_outcome b = Inr soup
         \<and> find_all soup primary_class = []))
   \<and> count_list (fst (extract_imdb_reviews launch url wt)) (FindAll fallback_class) \<le> 1
   \<and> count_list (fst (extract_imdb_reviews launch url wt)) (FindAll primary_class) \<le> 1
   \<and> count_list (fst (extract_imdb_reviews launch url wt)) PageSource \<le> 1
   \<and> count_list (fst (extract_imdb_reviews launch url wt)) (Get url) \<le> 1
   \<and> (launch = Inr browser \<and> get_outcome browser = None \<and> page_source_outcome browser = Inr page
        \<and> find_all page primary_class = [] \<and> find_all page fallback_class = [] \<longrightarrow>
      snd (extract_imdb_reviews launch url wt) = Inr [])"
proof (cases launch rule: extract_cases)
  case (1 e)
  then show ?thesis by (simp add: extract_no_browser)
next
  case (2 b e)
  then show ?thesis by (auto simp add: extract_get_raises)
next
  case (3 b e)
  from 3 show ?thesis
    by (auto simp add: extract_page_source_raises count_try_click_all
        notin_try_click_all)
next
  case (4 b soup)
  from 4 show ?thesis
    by (auto simp add: extract_primary count_try_click_all notin_try_click_all
        classes_differ classes_differ [symmetric])
next
  case (5 b soup)
  from 5 show ?thesis
    by (auto simp add: extract_fallback count_try_click_all
        notin_try_click_all classes_differ classes_differ [symmetric])
qed

text \<open>
  The witness for C8: on the page without reviews the fallback selector is consulted
  and the result is the empty list.
\<close>

theorem fallback_only_after_empty_primary_witness:
  "get_outcome empty_page_browser = None
   \<and> page_source_outcome empty_page_browser =
        Inr [\<lparr>class_attr = [''ipc-page-section''], get_text = ''User reviews''\<rparr>]
   \<and> find_all [\<lparr>class_attr = [''ipc-page-section''], get_text = ''User reviews''\<rparr>]
        primary_class = []
   \<and> find_all [\<lparr>class_attr = [''ipc-page-section''], get_text = ''User reviews''\<rparr>]
        fallback_class = []
   \<and> snd (extract_imdb_reviews (Inr empty_page_browser) None 8) = Inr []
   \<and> FindAll fallback_class \<in> set (fst (extract_imdb_reviews (Inr empty_page_browser) None 8))"
proof -
  let ?page = "[\<lparr>class_attr = [''ipc-page-section''], get_text = ''User reviews''\<rparr>]"
  note claim = fallback_only_after_empty_primary
    [of "Inr empty_page_browser" None 8 empty_page_browser ?page]
  have a: "get_outcome empty_page_browser = None"
    and b: "page_source_outcome empty_page_browser = Inr ?page"
    by (simp_all add: empty_page_browser_def)
  have c: "find_all ?page primary_class = []" and d: "find_all ?page fallback_class = []"
    by (simp_all add: find_all_def primary_class_def fallback_class_def)
  have h: "Inr empty_page_browser = Inr empty_page_browser \<and> get_outcome empty_page_browser = None
        \<and> page_source_outcome empty_page_browser = Inr ?page
        \<and> find_all ?page primary_class = [] \<and> find_all ?page fallback_class = []"
    using a b c d by (intro conjI refl)
  have r: "snd (extract_imdb_reviews (Inr empty_page_browser) None 8) = Inr []"
    using claim [THEN conjunct2, THEN conjunct2, THEN conjunct2, THEN conjunct2, THEN conjunct2] h
    by (rule mp)
  have "\<exists>b soup. Inr empty_page_browser = Inr b \<and> get_outcome b = None
          \<and> page_source_outcome b = Inr soup \<and> find_all soup primary_class = []"
    using a b c by blast
  with claim [THEN conjunct1]
  have f: "FindAll fallback_class \<in> set (fst (extract_imdb_reviews (Inr empty_page_browser) None 8))"
    by (rule iffD2)
  from a b c d r f show ?thesis by (intro conjI)
qed

text \<open>
  C9. Once the browser is there, \<open>driver.quit()\<close> is called exactly once and it is the
  last thing the function does, whether it returns or raises. What it returns is the
  text of the tags one selector found, in the order of the document; what it raises is
  the exception of \<open>driver.get\<close> or of \<open>driver.page_source\<close>. Without a browser there
  is nothing to release.
\<close>

theorem browser_always_released:
  "(launch = Inr b \<longrightarrow>
      last (fst (extract_imdb_reviews launch url wt)) = Quit
      \<and> count_list (fst (extract_imdb_reviews launch url wt)) Quit = 1
      \<and> (\<forall>rs. snd (extract_imdb_reviews launch url wt) = Inr rs \<longrightarrow>
            (\<exists>soup. page_source_outcome b = Inr soup \<and> subseq rs (map get_text soup)
               \<and> (rs = map get_text (find_all soup primary_class)
                    \<or> rs = map get_text (find_all soup fallback_class))))
      \<and> (\<forall>e. snd (extract_imdb_reviews launch url wt) = Inl e \<longrightarrow>
            get_outcome b = Some e \<or> page_source_outcome b = Inl e)
      \<and> (\<forall>e. get_outcome b = Some e \<longrightarrow> snd (extract_imdb_reviews launch url wt) = Inl e)
      \<and> (\<forall>e. get_outcome b = None \<and> page_source_outcome b = Inl e \<longrightarrow>
            snd (extract_imdb_reviews launch url wt) = Inl e))
   \<and> (launch = Inl e0 \<longrightarrow> extract_imdb_reviews launch url wt = ([Launch], Inl e0))"
proof (cases launch rule: extract_cases)
  case (1 e)
  then show ?thesis by (simp add: extract_no_browser)
next
  case (2 b' e)
  then show ?thesis by (auto simp add: extract_get_raises)
next
  case (3 b' e)
  from 3 show ?thesis
    by (auto simp add: extract_page_source_raises count_try_click_all)
next
  case (4 b' soup)
  have "subseq (map get_text (find_all soup primary_class)) (map get_text soup)"
    by (simp add: find_all_def subseq_map)
  with 4 show ?thesis
    by (auto simp add: extract_primary count_try_click_all)
next
  case (5 b' soup)
  have "subseq (map get_text (find_all soup fallback_class)) (map get_text soup)"
    by (simp add: find_all_def subseq_map)
  with 5 show ?thesis
    by (auto simp add: extract_fallback count_try_click_all)
qed

text \<open>
  The witness for C9: when \<open>driver.get\<close> raises, the exception comes out of the
  function and the browser has been released.
\<close>

theorem browser_always_released_witness:
  "get_outcome failing_browser = Some (PyException ''WebDriverException'')
   \<and> snd (extract_imdb_reviews (Inr failing_browser) None 8) =
        Inl (PyException ''WebDriverException'')
   \<and> last (fst (extract_imdb_reviews (Inr failing_browser) None 8)) = Quit
   \<and> count_list (fst (extract_imdb_reviews (Inr failing_browser) None 8)) Quit = 1"
proof -
  let ?run = "extract_imdb_reviews (Inr failing_browser) None 8"
  have a: "get_outcome failing_browser = Some (PyException ''WebDriverException'')"
    by (simp add: failing_browser_def)
  have released: "last (fst ?run) = Quit
      \<and> count_list (fst ?run) Quit = 1
      \<and> (\<forall>rs. snd ?run = Inr rs \<longrightarrow>
            (\<exists>soup. page_source_outcome failing_browser = Inr soup \<and> subseq rs (map get_text soup)
               \<and> (rs = map get_text (find_all soup primary_class)
                    \<or> rs = map get_text (find_all soup fallback_class))))
      \<and> (\<forall>e. snd ?run = Inl e \<longrightarrow>
            get_outcome failing_browser = Some e \<or> page_source_outcome failing_browser = Inl e)
      \<and> (\<forall>e. get_outcome failing_browser = Some e \<longrightarrow> snd ?run = Inl e)
      \<and> (\<forall>e. get_outcome failing_browser = None \<and> page_source_outcome failing_browser = Inl e \<longrightarrow>
            snd ?run = Inl e)"
    using browser_always_released [of "Inr failing_browser" failing_browser None 8, THEN conjunct1]
    by (rule mp) (rule refl)
  note l = released [THEN conjunct1]
  note c = released [THEN conjunct2, THEN conjunct1]
  note p = released [THEN conjunct2, THEN conjunct2, THEN conjunct2, THEN conjunct2, THEN conjunct1]
  note r = p [THEN spec, THEN mp, OF a]
  from a r l c show ?thesis by (intro conjI)
qed

subsection \<open>The normalizer\<close>

lemma word_not_space: "is_word c \<Longrightarrow> \<not> is_space c"
  by (auto simp add: is_word_def is_alnum_def is_space_def Let_def)

lemma space_is_space: "is_space CHR '' ''"
  by (simp add: is_space_def)

lemma lower_space: "lower_char CHR '' '' = CHR '' ''"
  by (simp add: lower_char_def ascii_uppercase_def ascii_lowercase_def)

lemma split_from_append:
  "\<forall>c \<in> set w. \<not> is_space c \<Longrightarrow> split_from cur (w @ rest) = split_from (cur @ w) rest"
  by (induction w arbitrary: cur) simp_all


lemma split_from_tokens:
  "\<forall>c \<in> set cur. \<not> is_space c \<Longrightarrow> w \<in> set (split_from cur s) \<Longrightarrow>
     w \<noteq> [] \<and> (\<forall>c \<in> set w. \<not> is_space c)"
proof (induction s arbitrary: cur)
  case Nil
  then show ?case by (cases "cur = []") simp_all
next
  case (Cons c cs)
  show ?case
  proof (cases "is_space c")
    case True
    show ?thesis
    proof (cases "cur = []")
      case True
      with \<open>is_space c\<close> Cons.prems(2) have "w \<in> set (split_from [] cs)" by simp
      then show ?thesis by (intro Cons.IH [of "[]"]) simp_all
    next
      case False
      with \<open>is_space c\<close> Cons.prems(2) have "w = cur \<or> w \<in> set (split_from [] cs)" by simp
      then show ?thesis
      proof
        assume "w = cur"
        with False Cons.prems(1) show ?thesis by simp
      next
        assume "w \<in> set (split_from [] cs)"
        then show ?thesis by (intro Cons.IH [of "[]"]) simp_all
      qed
    qed
  next
    case False
    with Cons.prems(2) have "w \<in> set (split_from (cur @ [c]) cs)" by simp
    moreover from False Cons.prems(1) have "\<forall>x \<in> set (cur @ [c]). \<not> is_space x" by simp
    ultimately show ?thesis by (intro Cons.IH [of "cur @ [c]"])
  qed
qed


lemma py_split_tokens:
  "w \<in> set (py_split s) \<Longrightarrow> w \<noteq> [] \<and> (\<forall>c \<in> set w. \<not> is_space c)"
  unfolding py_split_def using split_from_tokens [of "[]" w s] by simp

lemma split_from_word:
  assumes "w \<noteq> []" and "\<forall>c \<in> set w. \<not> is_space c"
  shows "split_from [] w = [w]"
    and "split_from [] (w @ CHR '' '' # rest) = w # split_from [] rest"
proof -
  have "split_from [] (w @ []) = split_from ([] @ w) []"
    using assms(2) by (rule split_from_append)
  with assms(1) show "split_from [] w = [w]" by simp
  have "split_from [] (w @ CHR '' '' # rest) = split_from ([] @ w) (CHR '' '' # rest)"
    using assms(2) by (rule split_from_append)
  with assms(1) show "split_from [] (w @ CHR '' '' # rest) = w # split_from [] rest"
    by (simp add: space_is_space)
qed

lemma py_split_join:
  "\<forall>w \<in> set ws. w \<noteq> [] \<and> (\<forall>c \<in> set w. \<not> is_space c) \<Longrightarrow> py_split (join_space ws) = ws"
proof (induction ws rule: join_space.induct)
  case 1
  show ?case by (simp add: py_split_def)
next
  case (2 w)
  then show ?case by (simp add: py_split_def split_from_word(1))
next
  case (3 w v ws)
  from "3.prems" have w: "w \<noteq> []" "\<forall>c \<in> set w. \<not> is_space c"
    and rest: "\<forall>u \<in> set (v # ws). u \<noteq> [] \<and> (\<forall>c \<in> set u. \<not> is_space c)"
    by simp_all
  from "3.IH" [OF rest] have "split_from [] (join_space (v # ws)) = v # ws"
    by (simp only: py_split_def)
  then show ?case
    by (simp only: py_split_def join_space.simps split_from_word(2) [OF w])
qed


lemma set_join_space: "c \<in> set (join_space ws) \<Longrightarrow> c = CHR '' '' \<or> (\<exists>w \<in> set ws. c \<in> set w)"
  by (induction ws rule: join_space.induct) auto

text \<open>
  The two passes of \<open>split\<close> and \<open>join\<close> are one: a review is normalized by
  lowercasing it, deleting what is neither a word character nor whitespace, splitting,
  dropping the stopwords, lemmatizing every token that is left, and joining.
\<close>

lemma kept_tokens_are_tokens:
  "w \<in> set (kept_tokens stop_words t) \<Longrightarrow> w \<noteq> [] \<and> (\<forall>c \<in> set w. \<not> is_space c)"
proof -
  assume "w \<in> set (kept_tokens stop_words t)"
  then have "w \<in> set (py_split (remove_punctuation (py_lower t)))"
    by (simp add: kept_tokens_def)
  then show ?thesis by (rule py_split_tokens)
qed

lemma normalize_composition:
  "normalize stop_words lemmatize t = join_space (map lemmatize (kept_tokens stop_words t))"
proof -
  have "py_split (join_space (kept_tokens stop_words t)) = kept_tokens stop_words t"
    by (rule py_split_join) (use kept_tokens_are_tokens in blast)
  then show ?thesis
    by (simp add: normalize_unfold lemmatize_words_def remove_stopwords_def kept_tokens_def)
qed

text \<open>
  After the second step every character is a word character or whitespace.
\<close>

lemma remove_punctuation_chars: "c \<in> set (remove_punctuation s) \<Longrightarrow> is_word c \<or> is_space c"
  by (simp add: remove_punctuation_def)

text \<open>
  A review without tokens, or one whose tokens are all stopwords, is normalized to the
  empty text; so is the empty review.
\<close>

lemma normalize_all_stopwords:
  "\<forall>w \<in> set (py_split (remove_punctuation (py_lower t))). w \<in> stop_words \<Longrightarrow>
     normalize stop_words lemmatize t = []"
  by (simp add: normalize_composition kept_tokens_def filter_empty_conv)

lemma normalize_empty: "normalize stop_words lemmatize [] = []"
  by (simp add: normalize_composition kept_tokens_def py_lower_def remove_punctuation_def
      py_split_def)


lemma clean_token_chars:
  "clean_token w \<Longrightarrow> w \<noteq> [] \<and> (\<forall>c \<in> set w. is_word c \<and> lower_char c = c)"
  by (simp add: clean_token_def list_all_iff)

lemma clean_tokens_fixed:
  assumes "\<forall>w \<in> set ws. clean_token w"
  shows "py_split (remove_punctuation (py_lower (join_space ws))) = ws"
proof -
  have chars: "c = CHR '' '' \<or> (is_word c \<and> lower_char c = c)" if "c \<in> set (join_space ws)" for c
    using set_join_space [OF that] assms clean_token_chars by blast
  have "lower_char c = c" if "c \<in> set (join_space ws)" for c
    using chars [OF that] lower_space by auto
  then have low: "py_lower (join_space ws) = join_space ws"
    unfolding py_lower_def by (rule map_idI)
  have "is_word c \<or> is_space c" if "c \<in> set (join_space ws)" for c
    using chars [OF that] space_is_space by auto
  then have punct: "remove_punctuation (join_space ws) = join_space ws"
    unfolding remove_punctuation_def filter_id_conv by blast
  have "\<forall>w \<in> set ws. w \<noteq> [] \<and> (\<forall>c \<in> set w. \<not> is_space c)"
    using assms clean_token_chars word_not_space by blast
  then have "py_split (join_space ws) = ws"
    by (rule py_split_join)
  with low punct show ?thesis by simp
qed

text \<open>
  C4, as stated, fails: the lemmatizer turns \<open>cans\<close> into \<open>can\<close>, and \<open>can\<close> is a
  stopword, so the second pass removes what the first pass produced.
\<close>

theorem normalize_not_idempotent:
  "normalize example_stop_words example_lemmatize ''Tin cans!'' = ''tin can''
   \<and> normalize example_stop_words example_lemmatize ''tin can'' = ''tin''
   \<and> normalize example_stop_words example_lemmatize
        (normalize example_stop_words example_lemmatize ''Tin cans!'')
      \<noteq> normalize example_stop_words example_lemmatize ''Tin cans!''"
proof -
  have a: "normalize example_stop_words example_lemmatize ''Tin cans!'' = ''tin can''"
    by (simp add: normalize_unfold lemmatize_words_def remove_stopwords_def
        remove_punctuation_def py_lower_def lower_char_def ascii_uppercase_def
        ascii_lowercase_def py_split_def is_word_def is_alnum_def is_space_def
        example_stop_words_def example_lemmatize_def)
  have b: "normalize example_stop_words example_lemmatize ''tin can'' = ''tin''"
    by (simp add: normalize_unfold lemmatize_words_def remove_stopwords_def
        remove_punctuation_def py_lower_def lower_char_def ascii_uppercase_def
        ascii_lowercase_def py_split_def is_word_def is_alnum_def is_space_def
        example_stop_words_def example_lemmatize_def)
  from a b show ?thesis by simp
qed

text \<open>
  C4, amended. Normalizing twice equals normalizing once for every review whose
  lemmas, the results of the lemmatizer on the tokens that survive stopword removal,
  are non-empty words of lowercase word characters, are not stopwords, and are left as
  they are by the lemmatizer. For such a review stopword removal and lemmatization
  change nothing in the normalized text.
\<close>

theorem normalize_idempotent_on_stable_lemmas:
  assumes "\<forall>w \<in> set (kept_tokens stop_words t).
             clean_token (lemmatize w) \<and> lemmatize w \<notin> stop_words
             \<and> lemmatize (lemmatize w) = lemmatize w"
  shows "normalize stop_words lemmatize (normalize stop_words lemmatize t) =
           normalize stop_words lemmatize t
         \<and> remove_stopwords stop_words (normalize stop_words lemmatize t) =
           normalize stop_words lemmatize t
         \<and> lemmatize_words lemmatize (normalize stop_words lemmatize t) =
           normalize stop_words lemmatize t"
proof -
  let ?ls = "map lemmatize (kept_tokens stop_words t)"
  have n: "normalize stop_words lemmatize t = join_space ?ls"
    by (rule normalize_composition)
  have clean: "\<forall>w \<in> set ?ls. clean_token w" using assms by simp
  have nostop: "filter (\<lambda>w. w \<notin> stop_words) ?ls = ?ls"
    unfolding filter_id_conv using assms by simp
  have fixed: "map lemmatize ?ls = ?ls" using assms by simp
  have "\<forall>w \<in> set ?ls. w \<noteq> [] \<and> (\<forall>c \<in> set w. \<not> is_space c)"
    using clean clean_token_chars word_not_space by blast
  then have split: "py_split (join_space ?ls) = ?ls"
    by (rule py_split_join)
  have "kept_tokens stop_words (join_space ?ls) =
          filter (\<lambda>w. w \<notin> stop_words) (py_split (remove_punctuation (py_lower (join_space ?ls))))"
    by (simp only: kept_tokens_def)
  also have "\<dots> = filter (\<lambda>w. w \<notin> stop_words) ?ls"
    by (simp only: clean_tokens_fixed [OF clean])
  also have "\<dots> = ?ls"
    by (rule nostop)
  finally have "kept_tokens stop_words (join_space ?ls) = ?ls" .
  then have "join_space (map lemmatize (kept_tokens stop_words (join_space ?ls))) = join_space ?ls"
    by (simp only: fixed)
  then have "normalize stop_words lemmatize (join_space ?ls) = join_space ?ls"
    by (simp only: normalize_composition [of stop_words lemmatize "join_space ?ls"])
  moreover have "remove_stopwords stop_words (join_space ?ls) = join_space ?ls"
    unfolding remove_stopwords_def split by (simp only: nostop)
  moreover have "lemmatize_words lemmatize (join_space ?ls) = join_space ?ls"
    unfolding lemmatize_words_def split by (simp only: fixed)
  ultimately show ?thesis unfolding n by (intro conjI)
qed


text \<open>
  The witness for the amended C4: the lemmas \<open>movie\<close> and \<open>great\<close> are stable, and
  the normalized review is a fixed point.
\<close>

theorem normalize_idempotent_on_stable_lemmas_witness:
  "kept_tokens example_stop_words ''The Movies were GREAT!'' = [''movies'', ''great'']
   \<and> normalize example_stop_words example_lemmatize ''The Movies were GREAT!'' = ''movie great''
   \<and> normalize example_stop_words example_lemmatize
        (normalize example_stop_words example_lemmatize ''The Movies were GREAT!'')
      = normalize example_stop_words example_lemmatize ''The Movies were GREAT!''"
proof -
  let ?t = "''The Movies were GREAT!''"
  have k: "kept_tokens example_stop_words ?t = [''movies'', ''great'']"
    by (simp add: kept_tokens_def remove_punctuation_def py_lower_def lower_char_def
        ascii_uppercase_def ascii_lowercase_def py_split_def is_word_def is_alnum_def
        is_space_def example_stop_words_def)
  have n: "normalize example_stop_words example_lemmatize ?t = ''movie great''"
    by (simp add: normalize_composition k example_lemmatize_def)
  have "clean_token ''movie''" and "clean_token ''great''"
    by (simp_all add: clean_token_def is_word_def is_alnum_def lower_char_def
        ascii_uppercase_def ascii_lowercase_def)
  then have "\<forall>w \<in> set (kept_tokens example_stop_words ?t).
      clean_token (example_lemmatize w) \<and> example_lemmatize w \<notin> example_stop_words
      \<and> example_lemmatize (example_lemmatize w) = example_lemmatize w"
    unfolding k by (simp add: example_lemmatize_def example_stop_words_def)
  from normalize_idempotent_on_stable_lemmas [OF this, THEN conjunct1] k n
  show ?thesis by (intro conjI)
qed

text \<open>
  C3 fails at the underscore. The pattern \<open>[^\w\s]\<close> keeps every word character, and
  the underscore is one: it is neither alphanumeric nor whitespace, and it is still in
  the text after the step that the source calls removing punctuation, and in the
  normalized review.
\<close>

theorem underscore_survives_punctuation_removal:
  "remove_punctuation (py_lower ''A good_movie!'') = ''a good_movie''
   \<and> CHR ''_'' \<in> set (remove_punctuation (py_lower ''A good_movie!''))
   \<and> \<not> is_alnum CHR ''_'' \<and> \<not> is_space CHR ''_''
   \<and> normalize example_stop_words example_lemmatize ''A good_movie!'' = ''good_movie''"
proof -
  have a: "remove_punctuation (py_lower ''A good_movie!'') = ''a good_movie''"
    by (simp add: remove_punctuation_def py_lower_def lower_char_def ascii_uppercase_def
        ascii_lowercase_def is_word_def is_alnum_def is_space_def)
  have b: "\<not> is_alnum CHR ''_''" and c: "\<not> is_space CHR ''_''"
    by (simp_all add: is_alnum_def is_space_def)
  have d: "normalize example_stop_words example_lemmatize ''A good_movie!'' = ''good_movie''"
    by (simp add: normalize_unfold a lemmatize_words_def remove_stopwords_def py_split_def
        is_space_def example_stop_words_def example_lemmatize_def)
  from a b c d show ?thesis by simp
qed

text \<open>
  C5. A review that is empty, or whose tokens after lowercasing and punctuation removal
  are all stopwords, is normalized to the empty text; the scorer gives the empty text
  the polarity 0.0 and the subjectivity 0.0, and this is the row the pipeline builds
  for the review.
\<close>

theorem empty_review_is_neutral:
  assumes "\<forall>w \<in> set (py_split (remove_punctuation (py_lower t))). w \<in> stop_words"
  shows "normalize stop_words lemmatize t = []
         \<and> normalize stop_words lemmatize [] = []
         \<and> score heuristic [] = (Finite 0, Finite 0)
         \<and> score heuristic (normalize stop_words lemmatize t) = (Finite 0, Finite 0)
         \<and> sentiment_pipeline stop_words lemmatize (score heuristic) [t] =
             [\<lparr>raw_reviews = Some t, reviews = Some [], polarity = Finite 0,
               subjectivity = Finite 0\<rparr>]"
proof -
  have n: "normalize stop_words lemmatize t = []"
    using assms by (rule normalize_all_stopwords)
  have s: "score heuristic [] = (Finite 0, Finite 0)"
    by (simp add: score_def)
  from n s show ?thesis
    by (simp add: normalize_empty sentiment_pipeline_map)
qed

text \<open>
  The witness for C5: the three tokens of the review are stopwords.
\<close>

theorem empty_review_is_neutral_witness:
  "py_split (remove_punctuation (py_lower ''The, it was!'')) = [''the'', ''it'', ''was'']
   \<and> normalize example_stop_words example_lemmatize ''The, it was!'' = []
   \<and> score (\<lambda>x. (1, 1)) (normalize example_stop_words example_lemmatize ''The, it was!'') =
        (Finite 0, Finite 0)"
proof -
  have k: "py_split (remove_punctuation (py_lower ''The, it was!'')) = [''the'', ''it'', ''was'']"
    by (simp add: remove_punctuation_def py_lower_def lower_char_def
        ascii_uppercase_def ascii_lowercase_def py_split_def is_word_def is_alnum_def
        is_space_def)
  have "\<forall>w \<in> set (py_split (remove_punctuation (py_lower ''The, it was!''))). w \<in> example_stop_words"
    unfolding k by (simp add: example_stop_words_def)
  note claim = empty_review_is_neutral [OF this, of example_lemmatize "\<lambda>x. (1, 1)"]
  from k claim [THEN conjunct1] claim [THEN conjunct2, THEN conjunct2, THEN conjunct2, THEN conjunct1]
  show ?thesis by (intro conjI)
qed

end
